theory Spec2Isabelle
  imports Complex_Main "HOL-Library.Word" "HOL-Library.Sublist"
begin

section \<open>JavaScript values seen by the voice processor\<close>

text \<open>
  A JavaScript string is a sequence of UTF-16 code units; \<open>length\<close> counts code units,
  as the source's \<open>transcript.length\<close> does. String literals of the source are ASCII and
  are written \<open>lit ''...''\<close>.
\<close>

type_synonym jsstr = "16 word list"

definition u16 :: "char \<Rightarrow> 16 word" where
  "u16 c = of_nat (of_char c)"

definition lit :: "string \<Rightarrow> jsstr" where
  "lit s = map u16 s"

text \<open>
  Values that cross the boundary to the external services are JSON-like data: no
  functions, getters or proxies. An object is the list of its own properties (the first
  binding of a key is the one read). Numbers are the finite ones, as rationals.
\<close>

datatype js =
    JUndefined
  | JNull
  | JBool bool
  | JNum rat
  | JStr jsstr
  | JArr "js list"
  | JObj "(jsstr \<times> js) list"

text \<open>
  What a \<open>throw\<close> or a rejected promise carries, as far as the source looks at it: the
  source only asks \<open>error instanceof Error\<close> and then reads \<open>error.message\<close>.
\<close>

datatype thrown = ErrorInstance jsstr | NonError

fun truthy :: "js \<Rightarrow> bool" where
  "truthy JUndefined = False"
| "truthy JNull = False"
| "truthy (JBool b) = b"
| "truthy (JNum q) = (q \<noteq> 0)"
| "truthy (JStr s) = (s \<noteq> [])"
| "truthy (JArr xs) = True"
| "truthy (JObj kvs) = True"

fun nullish :: "js \<Rightarrow> bool" where
  "nullish JUndefined = True"
| "nullish JNull = True"
| "nullish v = False"

text \<open>Decimal rendering of a non-negative integer, and of an integer (template literals).\<close>

fun dec :: "nat \<Rightarrow> jsstr" where
  "dec n = (if n < 10 then [of_nat (48 + n)] else dec (n div 10) @ [of_nat (48 + n mod 10)])"

declare dec.simps [simp del]


text \<open>
  Property read \<open>v.k\<close> / \<open>v[k]\<close>. Reading a property of \<open>undefined\<close> or \<open>null\<close> throws a
  TypeError (message as V8 words it). The keys the source reads (\<open>text\<close>, \<open>choices\<close>,
  \<open>0\<close>, \<open>message\<close>, \<open>content\<close>, \<open>generations\<close>, \<open>length\<close>, \<open>audio\<close>) are not inherited
  from a prototype of a data value, except \<open>length\<close> and the indices of strings and
  arrays, which are written out.
\<close>

definition cannot_read :: "js \<Rightarrow> jsstr \<Rightarrow> thrown" where
  "cannot_read v k = ErrorInstance
     (lit ''Cannot read properties of '' @
      (if v = JNull then lit ''null'' else lit ''undefined'') @
      lit '' (reading '' @ [39] @ k @ [39] @ lit '')'')"

definition index_of_key :: "nat \<Rightarrow> jsstr \<Rightarrow> nat option" where
  "index_of_key n k = (case filter (\<lambda>i. dec i = k) [0..<n] of [] \<Rightarrow> None | i # _ \<Rightarrow> Some i)"

fun js_get :: "js \<Rightarrow> jsstr \<Rightarrow> thrown + js" where
  "js_get JUndefined k = Inl (cannot_read JUndefined k)"
| "js_get JNull k = Inl (cannot_read JNull k)"
| "js_get (JBool b) k = Inr JUndefined"
| "js_get (JNum q) k = Inr JUndefined"
| "js_get (JStr s) k =
     (if k = lit ''length'' then Inr (JNum (of_nat (length s)))
      else case index_of_key (length s) k of
             Some i \<Rightarrow> Inr (JStr [s ! i])
           | None \<Rightarrow> Inr JUndefined)"
| "js_get (JArr xs) k =
     (if k = lit ''length'' then Inr (JNum (of_nat (length xs)))
      else case index_of_key (length xs) k of
             Some i \<Rightarrow> Inr (xs ! i)
           | None \<Rightarrow> Inr JUndefined)"
| "js_get (JObj kvs) k = (case map_of kvs k of Some v \<Rightarrow> Inr v | None \<Rightarrow> Inr JUndefined)"

text \<open>
  \<open>String.prototype.trim\<close>: strips WhiteSpace and LineTerminator code units from both
  ends (ECMAScript: TAB, VT, FF, SP, NBSP, ZWNBSP, the Unicode space separators, LF, CR,
  LS, PS).
\<close>

definition is_ws :: "16 word \<Rightarrow> bool" where
  "is_ws c \<longleftrightarrow>
     c = 0x0009 \<or> c = 0x000A \<or> c = 0x000B \<or> c = 0x000C \<or> c = 0x000D \<or> c = 0x0020 \<or>
     c = 0x00A0 \<or> c = 0x1680 \<or> (0x2000 \<le> c \<and> c \<le> 0x200A) \<or> c = 0x2028 \<or>
     c = 0x2029 \<or> c = 0x202F \<or> c = 0x205F \<or> c = 0x3000 \<or> c = 0xFEFF"

definition trim :: "jsstr \<Rightarrow> jsstr" where
  "trim s = rev (dropWhile is_ws (rev (dropWhile is_ws s)))"

text \<open>
  \<open>String.prototype.toLowerCase\<close> on the code units A to Z. The other code units are
  left as they are: no code unit outside A-Z lowercases to a letter or digit of a
  supported extension or to a full stop, so the extension test below is the source's.
\<close>

definition toLowerCase :: "jsstr \<Rightarrow> jsstr" where
  "toLowerCase s = map (\<lambda>c. if 0x41 \<le> c \<and> c \<le> 0x5A then c + 0x20 else c) s"

text \<open>\<open>s.split('.').pop()\<close>: the part after the last full stop (all of \<open>s\<close> without one).\<close>

definition split_dot_pop :: "jsstr \<Rightarrow> jsstr" where
  "split_dot_pop s = rev (takeWhile (\<lambda>c. c \<noteq> 0x2E) (rev s))"

section \<open>Shared types (types/shared.ts)\<close>

datatype PipelineStage = validation | whisper | llama | hume | response_assembly

record PipelineStageResult =
  stage :: PipelineStage
  success :: bool
  durationMs :: int
  sr_error :: "jsstr option"

record AudioProcessingMetadata =
  originalDuration :: "nat option"
  transcriptLength :: js
  processingTimeMs :: int
  pipelineStages :: "PipelineStageResult list"

record ProcessedAudioResult =
  audioBase64 :: js
  metadata :: AudioProcessingMetadata

record ValidationDetails =
  fileSize :: nat
  fileType :: jsstr
  maxSizeExceeded :: bool
  unsupportedFormat :: bool

record ValidationResult =
  valid :: bool
  vr_error :: "jsstr option"
  details :: "ValidationDetails option"

record AudioMetadata =
  am_size :: nat
  am_type :: jsstr
  am_name :: jsstr
  am_lastModified :: int


text \<open>\<open>class PipelineError extends Error\<close>: message, stage, optional details.\<close>

record PipelineError =
  pe_message :: jsstr
  pe_stage :: PipelineStage
  pe_details :: "jsstr option"


section \<open>The model layer (voice-processor/model.ts)\<close>

text \<open>
  A \<open>File\<close>: its declared size, media type and name, and what \<open>arrayBuffer()\<close> settles
  to (the bytes, or a rejection).
\<close>

record File =
  file_size :: nat
  file_type :: jsstr
  file_name :: jsstr
  file_lastModified :: int
  arrayBuffer :: "thrown + 8 word list"

definition MAX_FILE_SIZE :: nat where
  "MAX_FILE_SIZE = 25 * 1024 * 1024"

definition SUPPORTED_MIME_TYPES :: "jsstr list" where
  "SUPPORTED_MIME_TYPES =
     [lit ''audio/wav'', lit ''audio/mp3'', lit ''audio/mpeg'',
      lit ''audio/mp4'', lit ''audio/webm'', lit ''audio/m4a'', lit ''audio/mpga'']"

definition SUPPORTED_EXTENSIONS :: "jsstr list" where
  "SUPPORTED_EXTENSIONS =
     [lit ''wav'', lit ''mp3'', lit ''m4a'', lit ''webm'', lit ''mp4'', lit ''mpeg'', lit ''mpga'']"

text \<open>\<open>xs.join(sep)\<close> on a list of strings.\<close>

fun join :: "jsstr \<Rightarrow> jsstr list \<Rightarrow> jsstr" where
  "join sep [] = []"
| "join sep [x] = x"
| "join sep (x # y # ys) = x @ sep @ join sep (y # ys)"

definition validateAudioFile :: "File \<Rightarrow> ValidationResult" where
  "validateAudioFile file =
     (if file_size file > MAX_FILE_SIZE then
        \<lparr> valid = False,
          vr_error = Some (lit ''File size exceeds maximum allowed size of '' @
                           dec (MAX_FILE_SIZE div 1024 div 1024) @ lit ''MB''),
          details = Some \<lparr> fileSize = file_size file, fileType = file_type file,
                           maxSizeExceeded = True, unsupportedFormat = False \<rparr> \<rparr>
      else
        let isValidMimeType = (file_type file \<in> set SUPPORTED_MIME_TYPES);
            fileExtension = split_dot_pop (toLowerCase (file_name file));
            hasValidExtension = (fileExtension \<noteq> [] \<and> fileExtension \<in> set SUPPORTED_EXTENSIONS)
        in if \<not> isValidMimeType \<and> \<not> hasValidExtension then
             \<lparr> valid = False,
               vr_error = Some (lit ''Unsupported file format. Supported formats: '' @
                                join (lit '', '') SUPPORTED_EXTENSIONS),
               details = Some \<lparr> fileSize = file_size file, fileType = file_type file,
                                maxSizeExceeded = False, unsupportedFormat = True \<rparr> \<rparr>
           else
             \<lparr> valid = True,
               vr_error = None,
               details = Some \<lparr> fileSize = file_size file, fileType = file_type file,
                                maxSizeExceeded = False, unsupportedFormat = False \<rparr> \<rparr>)"

definition extractAudioMetadata :: "File \<Rightarrow> AudioMetadata" where
  "extractAudioMetadata file =
     \<lparr> am_size = file_size file, am_type = file_type file,
       am_name = file_name file, am_lastModified = file_lastModified file \<rparr>"

text \<open>
  \<open>x.trim().length === 0\<close> for a truthy \<open>x\<close>: only a string has a \<open>trim\<close> method; on any
  other truthy data value the call throws a TypeError.
\<close>

definition trim_is_empty :: "jsstr \<Rightarrow> js \<Rightarrow> thrown + bool" where
  "trim_is_empty var x =
     (case x of
        JStr s \<Rightarrow> Inr (length (trim s) = 0)
      | _ \<Rightarrow> Inl (ErrorInstance (var @ lit ''.trim is not a function'')))"

definition validatePipelineStages :: "js \<Rightarrow> js \<Rightarrow> thrown + bool" where
  "validatePipelineStages transcript llmOutput =
     (if \<not> truthy transcript then Inr False
      else (case trim_is_empty (lit ''transcript'') transcript of
         Inl e \<Rightarrow> Inl e
       | Inr True \<Rightarrow> Inr False
       | Inr False \<Rightarrow>
           (if \<not> truthy llmOutput then Inr False
            else (case trim_is_empty (lit ''llmOutput'') llmOutput of
               Inl e \<Rightarrow> Inl e
             | Inr True \<Rightarrow> Inr False
             | Inr False \<Rightarrow> Inr True))))"

section \<open>The controller (voice-processor/controller.ts)\<close>

text \<open>
  \<open>env\<close>: the AI binding and the Hume key. \<open>AI_run name params\<close> is what the promise of
  \<open>env.AI.run(name, params)\<close> settles to: \<open>Inr\<close> the resolved value, \<open>Inl\<close> what it
  rejected with (or what the call threw).
\<close>

record Env =
  AI_run :: "jsstr \<Rightarrow> js \<Rightarrow> thrown + js"
  HUME_API_KEY :: js

text \<open>The second argument of \<open>fetch\<close>; \<open>body_json\<close> is the value given to \<open>JSON.stringify\<close>.\<close>

record FetchInit =
  fi_method :: jsstr
  fi_headers :: "(jsstr \<times> js) list"
  body_json :: js

text \<open>A \<open>Response\<close>: \<open>ok\<close>, \<open>status\<close>, and what \<open>text()\<close> and \<open>json()\<close> settle to.\<close>

record Response =
  resp_ok :: bool
  resp_status :: nat
  resp_text :: "thrown + jsstr"
  resp_json :: "thrown + js"

text \<open>
  The host: \<open>Date_now k\<close> is the value of the \<open>k\<close>-th read of \<open>Date.now()\<close> in a run
  (every path of the pipeline reads the clock in the same order, so each read site has a
  fixed position); \<open>fetch\<close> is the global \<open>fetch\<close>; \<open>ToNumber_positive v\<close> says whether
  \<open>v > 0\<close> for a string, array or object \<open>v\<close>, where the language converts \<open>v\<close> to a
  number first.
\<close>

record Host =
  Date_now :: "nat \<Rightarrow> int"
  fetch :: "jsstr \<Rightarrow> FetchInit \<Rightarrow> thrown + Response"
  ToNumber_positive :: "js \<Rightarrow> bool"

text \<open>The calls a run issues to the external services, in order.\<close>

datatype call = AI_run_call jsstr js | fetch_call jsstr FetchInit

text \<open>What leaves a \<open>try\<close> block: a \<open>PipelineError\<close> or any other thrown value.\<close>

datatype exn = PipelineErr PipelineError | OtherThrown thrown

text \<open>
  A run: the local \<open>pipelineStages\<close> array as the run left it, the external calls it
  issued, and the promise's fate (\<open>Inr\<close> the result, \<open>Inl\<close> what it rejected with).
\<close>

record Run =
  stagesLog :: "PipelineStageResult list"
  calls :: "call list"
  outcome :: "exn + ProcessedAudioResult"

definition new_PipelineError :: "jsstr \<Rightarrow> PipelineStage \<Rightarrow> jsstr option \<Rightarrow> PipelineError" where
  "new_PipelineError m s d = \<lparr> pe_message = m, pe_stage = s, pe_details = d \<rparr>"

text \<open>\<open>error instanceof Error ? error.message : 'Unknown error'\<close> and \<open>... : undefined\<close>.\<close>

fun message_or_unknown :: "thrown \<Rightarrow> jsstr" where
  "message_or_unknown (ErrorInstance m) = m"
| "message_or_unknown NonError = lit ''Unknown error''"

fun message_or_undefined :: "thrown \<Rightarrow> jsstr option" where
  "message_or_undefined (ErrorInstance m) = Some m"
| "message_or_undefined NonError = None"

text \<open>\<open>a > 0\<close> for a data value \<open>a\<close>.\<close>

fun js_gt_zero :: "Host \<Rightarrow> js \<Rightarrow> bool" where
  "js_gt_zero host JUndefined = False"
| "js_gt_zero host JNull = False"
| "js_gt_zero host (JBool b) = b"
| "js_gt_zero host (JNum q) = (0 < q)"
| "js_gt_zero host v = ToNumber_positive host v"

text \<open>
  The body of the \<open>try\<close> block of stage 2: the calls it issued and the transcript, or what
  it threw.
\<close>

definition whisper_params :: "8 word list \<Rightarrow> js" where
  "whisper_params bytes =
     JObj [(lit ''audio'', JArr (map (\<lambda>b. JNum (of_nat (unat b))) bytes)),
           (lit ''response_format'', JStr (lit ''text''))]"

definition transcribeAudio :: "File \<Rightarrow> Env \<Rightarrow> call list \<times> (thrown + js)" where
  "transcribeAudio audioFile env =
     (case arrayBuffer audioFile of
        Inl e \<Rightarrow> ([], Inl e)
      | Inr bytes \<Rightarrow>
          (let params = whisper_params bytes;
               cs = [AI_run_call (lit ''whisper-large-v3'') params]
           in case AI_run env (lit ''whisper-large-v3'') params of
                Inl e \<Rightarrow> (cs, Inl e)
              | Inr whisperResponse \<Rightarrow> (cs, js_get whisperResponse (lit ''text''))))"

text \<open>The body of the \<open>try\<close> block of stage 3.\<close>

definition llama_params :: "js \<Rightarrow> js" where
  "llama_params transcript =
     JObj [(lit ''messages'',
            JArr [JObj [(lit ''role'', JStr (lit ''system'')),
                        (lit ''content'', JStr (lit
     ''You are a helpful assistant that processes user speech input and provides thoughtful responses.''))],
                  JObj [(lit ''role'', JStr (lit ''user'')),
                        (lit ''content'', transcript)]]),
           (lit ''max_tokens'', JNum 1024),
           (lit ''temperature'', JNum (7 / 10))]"

definition processTextWithLLM :: "js \<Rightarrow> Env \<Rightarrow> call list \<times> (thrown + js)" where
  "processTextWithLLM transcript env =
     (let params = llama_params transcript;
          cs = [AI_run_call (lit ''llama-3.3-70b'') params]
      in case AI_run env (lit ''llama-3.3-70b'') params of
           Inl e \<Rightarrow> (cs, Inl e)
         | Inr llamaResponse \<Rightarrow>
             (cs, case js_get llamaResponse (lit ''choices'') of
                    Inl e \<Rightarrow> Inl e
                  | Inr choices \<Rightarrow>
                      (case js_get choices (lit ''0'') of
                         Inl e \<Rightarrow> Inl e
                       | Inr choice \<Rightarrow>
                           (case js_get choice (lit ''message'') of
                              Inl e \<Rightarrow> Inl e
                            | Inr msg \<Rightarrow> js_get msg (lit ''content'')))))"

text \<open>
  The body of the \<open>try\<close> block of stage 4, from the parsed body on:
  \<open>ttsData.generations && ttsData.generations.length > 0 && ttsData.generations[0]?.audio\<close>.
\<close>

definition no_audio :: thrown where
  "no_audio = ErrorInstance (lit ''No audio generated by TTS service'')"

definition audio_of_ttsData :: "Host \<Rightarrow> js \<Rightarrow> thrown + js" where
  "audio_of_ttsData host ttsData =
     (case js_get ttsData (lit ''generations'') of
        Inl e \<Rightarrow> Inl e
      | Inr generations \<Rightarrow>
          (if \<not> truthy generations then Inl no_audio
           else (case js_get generations (lit ''length'') of
              Inl e \<Rightarrow> Inl e
            | Inr len \<Rightarrow>
                (if \<not> js_gt_zero host len then Inl no_audio
                 else (case js_get generations (lit ''0'') of
                    Inl e \<Rightarrow> Inl e
                  | Inr g \<Rightarrow>
                      (case (if nullish g then Inr JUndefined else js_get g (lit ''audio'')) of
                         Inl e \<Rightarrow> Inl e
                       | Inr audio \<Rightarrow> (if truthy audio then Inr audio else Inl no_audio)))))))"

definition hume_init :: "Env \<Rightarrow> js \<Rightarrow> FetchInit" where
  "hume_init env llmOutput =
     \<lparr> fi_method = lit ''POST'',
       fi_headers = [(lit ''X-Hume-Api-Key'', HUME_API_KEY env),
                     (lit ''Content-Type'', JStr (lit ''application/json''))],
       body_json = JObj [(lit ''utterances'', JArr [JObj [(lit ''text'', llmOutput)]])] \<rparr>"

definition synthesizeSpeech :: "Host \<Rightarrow> Env \<Rightarrow> js \<Rightarrow> call list \<times> (thrown + js)" where
  "synthesizeSpeech host env llmOutput =
     (let init = hume_init env llmOutput;
          cs = [fetch_call (lit ''https://api.hume.ai/v0/tts'') init]
      in case fetch host (lit ''https://api.hume.ai/v0/tts'') init of
           Inl e \<Rightarrow> (cs, Inl e)
         | Inr ttsResponse \<Rightarrow>
             (if \<not> resp_ok ttsResponse then
                (case resp_text ttsResponse of
                   Inl e \<Rightarrow> (cs, Inl e)
                 | Inr errorText \<Rightarrow>
                     (cs, Inl (ErrorInstance (lit ''Hume API error: '' @
                                 dec (resp_status ttsResponse) @ lit '' - '' @ errorText))))
              else
                (case resp_json ttsResponse of
                   Inl e \<Rightarrow> (cs, Inl e)
                 | Inr ttsData \<Rightarrow> (cs, audio_of_ttsData host ttsData))))"

text \<open>\<open>validation.error || 'Validation failed'\<close>.\<close>

definition or_default :: "jsstr option \<Rightarrow> jsstr \<Rightarrow> jsstr" where
  "or_default e d = (case e of None \<Rightarrow> d | Some m \<Rightarrow> (if m = [] then d else m))"

definition stage_ok :: "PipelineStage \<Rightarrow> int \<Rightarrow> PipelineStageResult" where
  "stage_ok s d = \<lparr> stage = s, success = True, durationMs = d, sr_error = None \<rparr>"

definition stage_failed :: "PipelineStage \<Rightarrow> int \<Rightarrow> jsstr \<Rightarrow> PipelineStageResult" where
  "stage_failed s d m = \<lparr> stage = s, success = False, durationMs = d, sr_error = Some m \<rparr>"

text \<open>
  The outer \<open>try\<close> block of \<open>processVoicePipeline\<close>. \<open>Math.ceil(size / 16000)\<close> on a
  non-negative integer size is \<open>(size + 15999) div 16000\<close>.
\<close>

definition pipeline_try :: "Host \<Rightarrow> File \<Rightarrow> Env \<Rightarrow> Run" where
  "pipeline_try host audioFile env =
   (let startTime = Date_now host 0;
        validationStart = Date_now host 1;
        validation = validateAudioFile audioFile;
        validationEnd = Date_now host 2;
        stages1 = [\<lparr> stage = PipelineStage.validation, success = valid validation,
                     durationMs = validationEnd - validationStart,
                     sr_error = vr_error validation \<rparr>]
    in if \<not> valid validation then
         \<lparr> stagesLog = stages1, calls = [],
           outcome = Inl (PipelineErr (new_PipelineError
                       (or_default (vr_error validation) (lit ''Validation failed''))
                       PipelineStage.validation None)) \<rparr>
       else
        (let whisperStart = Date_now host 3 in
         case transcribeAudio audioFile env of (cs2, r2) \<Rightarrow>
         (case r2 of
            Inl error \<Rightarrow>
              (let whisperEnd = Date_now host 4 in
               \<lparr> stagesLog = stages1 @
                   [stage_failed whisper (whisperEnd - whisperStart) (message_or_unknown error)],
                 calls = cs2,
                 outcome = Inl (PipelineErr (new_PipelineError
                             (lit ''Whisper transcription failed'') whisper
                             (message_or_undefined error))) \<rparr>)
          | Inr transcript \<Rightarrow>
              (let whisperEnd = Date_now host 4;
                   stages2 = stages1 @ [stage_ok whisper (whisperEnd - whisperStart)];
                   llamaStart = Date_now host 5
               in case processTextWithLLM transcript env of (cs3, r3) \<Rightarrow>
               (case r3 of
                  Inl error \<Rightarrow>
                    (let llamaEnd = Date_now host 6 in
                     \<lparr> stagesLog = stages2 @
                         [stage_failed llama (llamaEnd - llamaStart) (message_or_unknown error)],
                       calls = cs2 @ cs3,
                       outcome = Inl (PipelineErr (new_PipelineError
                                   (lit ''LLM processing failed'') llama
                                   (message_or_undefined error))) \<rparr>)
                | Inr llmOutput \<Rightarrow>
                    (let llamaEnd = Date_now host 6;
                         stages3 = stages2 @ [stage_ok llama (llamaEnd - llamaStart)]
                     in case validatePipelineStages transcript llmOutput of
                          Inl e \<Rightarrow>
                            \<lparr> stagesLog = stages3, calls = cs2 @ cs3,
                              outcome = Inl (OtherThrown e) \<rparr>
                        | Inr False \<Rightarrow>
                            \<lparr> stagesLog = stages3 @
                                [stage_failed response_assembly 0 (lit ''Invalid pipeline output'')],
                              calls = cs2 @ cs3,
                              outcome = Inl (PipelineErr (new_PipelineError
                                          (lit ''Pipeline validation failed'')
                                          response_assembly None)) \<rparr>
                        | Inr True \<Rightarrow>
                            (let humeStart = Date_now host 7 in
                             case synthesizeSpeech host env llmOutput of (cs4, r4) \<Rightarrow>
                             (case r4 of
                                Inl error \<Rightarrow>
                                  (let humeEnd = Date_now host 8 in
                                   \<lparr> stagesLog = stages3 @
                                       [stage_failed hume (humeEnd - humeStart)
                                          (message_or_unknown error)],
                                     calls = cs2 @ cs3 @ cs4,
                                     outcome = Inl (PipelineErr (new_PipelineError
                                                 (lit ''Text-to-speech synthesis failed'') hume
                                                 (message_or_undefined error))) \<rparr>)
                              | Inr audio \<Rightarrow>
                                  (let humeEnd = Date_now host 8;
                                       stages4 = stages3 @ [stage_ok hume (humeEnd - humeStart)];
                                       assemblyStart = Date_now host 9;
                                       metadata = extractAudioMetadata audioFile;
                                       assemblyEnd = Date_now host 10;
                                       stages5 = stages4 @
                                         [stage_ok response_assembly (assemblyEnd - assemblyStart)];
                                       endTime = Date_now host 11
                                   in case js_get transcript (lit ''length'') of
                                        Inl e \<Rightarrow>
                                          \<lparr> stagesLog = stages5, calls = cs2 @ cs3 @ cs4,
                                            outcome = Inl (OtherThrown e) \<rparr>
                                      | Inr len \<Rightarrow>
                                          \<lparr> stagesLog = stages5, calls = cs2 @ cs3 @ cs4,
                                            outcome = Inr
                                              \<lparr> audioBase64 = audio,
                                                metadata =
                                                  \<lparr> originalDuration =
                                                      (if am_size metadata > 0
                                                       then Some ((am_size metadata + 15999) div 16000)
                                                       else None),
                                                    transcriptLength = len,
                                                    processingTimeMs = endTime - startTime,
                                                    pipelineStages = stages5 \<rparr> \<rparr> \<rparr>)))))))))"

text \<open>
  \<open>processVoicePipeline\<close>: the \<open>try\<close> block under its \<open>catch\<close>, which rethrows a
  \<open>PipelineError\<close> and wraps anything else.
\<close>

definition processVoicePipeline :: "Host \<Rightarrow> File \<Rightarrow> Env \<Rightarrow> Run" where
  "processVoicePipeline host audioFile env =
     (let r = pipeline_try host audioFile env
      in case outcome r of
           Inl (OtherThrown error) \<Rightarrow>
             r \<lparr> outcome := Inl (PipelineErr (new_PipelineError
                                (lit ''Unknown pipeline error'') response_assembly
                                (message_or_undefined error))) \<rparr>
         | _ \<Rightarrow> r)"

subsection \<open>The error reporter\<close>










section \<open>Vocabulary of the properties\<close>

text \<open>
  The position of a stage in the order of the \<open>PipelineStage\<close> type, the stage of the
  first failed entry of a log, and which external call belongs to which stage.
\<close>

fun stage_index :: "PipelineStage \<Rightarrow> nat" where
  "stage_index validation = 0"
| "stage_index whisper = 1"
| "stage_index llama = 2"
| "stage_index hume = 3"
| "stage_index response_assembly = 4"

definition first_failing :: "PipelineStageResult list \<Rightarrow> PipelineStage option" where
  "first_failing stages = map_option stage (find (\<lambda>r. \<not> success r) stages)"

fun is_whisper_call :: "call \<Rightarrow> bool" where
  "is_whisper_call (AI_run_call name params) = (name = lit ''whisper-large-v3'')"
| "is_whisper_call (fetch_call url init) = False"

fun is_llama_call :: "call \<Rightarrow> bool" where
  "is_llama_call (AI_run_call name params) = (name = lit ''llama-3.3-70b'')"
| "is_llama_call (fetch_call url init) = False"

fun is_hume_call :: "call \<Rightarrow> bool" where
  "is_hume_call (AI_run_call name params) = False"
| "is_hume_call (fetch_call url init) = True"

text \<open>
  A text that is empty or whitespace-only after trimming, or no text at all because the
  value is falsy (\<open>undefined\<close>, \<open>null\<close>, ...).
\<close>

fun is_text :: "js \<Rightarrow> bool" where
  "is_text (JStr s) = True"
| "is_text v = False"

fun blank_text :: "js \<Rightarrow> bool" where
  "blank_text (JStr s) = (trim s = [])"
| "blank_text v = (\<not> truthy v)"

section \<open>Concrete runs\<close>

text \<open>
  A 1 KB WAV file and a 30 MiB text file; an \<open>env\<close> whose two models settle as given; a
  host whose clock advances 10 ms per read and whose \<open>fetch\<close> settles as given.
\<close>

definition wav_file :: File where
  "wav_file = \<lparr> file_size = 1024, file_type = lit ''audio/wav'', file_name = lit ''test.wav'',
                 file_lastModified = 0, arrayBuffer = Inr [0x52, 0x49, 0x46, 0x46] \<rparr>"

definition big_txt :: File where
  "big_txt = \<lparr> file_size = 31457280, file_type = lit ''text/plain'',
                file_name = lit ''test.txt'', file_lastModified = 0, arrayBuffer = Inr [] \<rparr>"

definition mk_env :: "(thrown + js) \<Rightarrow> (thrown + js) \<Rightarrow> Env" where
  "mk_env w l =
     \<lparr> AI_run = (\<lambda>name params. if name = lit ''whisper-large-v3'' then w else l),
       HUME_API_KEY = JStr (lit ''test-hume-key'') \<rparr>"

definition mk_host :: "(thrown + Response) \<Rightarrow> Host" where
  "mk_host r =
     \<lparr> Date_now = (\<lambda>k. 1700000000000 + 10 * int k),
       fetch = (\<lambda>url init. r),
       ToNumber_positive = (\<lambda>v. False) \<rparr>"

definition whisper_says :: "jsstr \<Rightarrow> thrown + js" where
  "whisper_says s = Inr (JObj [(lit ''text'', JStr s)])"

definition llama_says :: "jsstr \<Rightarrow> thrown + js" where
  "llama_says s =
     Inr (JObj [(lit ''choices'', JArr [JObj [(lit ''message'', JObj [(lit ''content'', JStr s)])]])])"

definition hume_ok :: "thrown + Response" where
  "hume_ok = Inr \<lparr> resp_ok = True, resp_status = 200, resp_text = Inr [],
                   resp_json = Inr (JObj [(lit ''generations'',
                     JArr [JObj [(lit ''audio'', JStr (lit ''base64-encoded-audio-data'')),
                                 (lit ''generationId'', JStr (lit ''gen-123''))]])]) \<rparr>"








section \<open>Facts about strings and values\<close>

lemma u16_inj: "u16 c = u16 d \<longleftrightarrow> c = d"
proof
  assume "u16 c = u16 d"
  then have "unat (of_nat (of_char c) :: 16 word) = unat (of_nat (of_char d) :: 16 word)"
    by (simp add: u16_def)
  moreover have "of_char c < (65536::nat)" "of_char d < (65536::nat)"
    using nat_of_char_less_256 [of c] nat_of_char_less_256 [of d] by linarith+
  ultimately have "(of_char c :: nat) = of_char d"
    by (simp add: unat_of_nat)
  then show "c = d" by simp
qed simp

lemma lit_inj: "lit a = lit b \<longleftrightarrow> a = b"
  unfolding lit_def
proof (induction a arbitrary: b)
  case Nil
  then show ?case by auto
next
  case (Cons x xs)
  then show ?case by (cases b) (auto simp: u16_inj)
qed

lemma lit_Nil: "lit s = [] \<longleftrightarrow> s = []"
  by (simp add: lit_def)

section \<open>Properties of the input validator\<close>

text \<open>
  C6. An artifact whose declared size exceeds 26214400 bytes (25 MiB) is rejected:
  \<open>valid\<close> is false, \<open>details.maxSizeExceeded\<close> is true and \<open>details.fileSize\<close> is the
  observed size. \<open>validateAudioFile\<close> has no throwing branch: it gives a result with a
  detail payload for every file, and the result depends on the declared size, type and
  name only.
\<close>

theorem validateAudioFile_oversized:
  "(\<exists>d. details (validateAudioFile file) = Some d \<and> fileSize d = file_size file) \<and>
   (file_size file > 26214400 \<longrightarrow>
      valid (validateAudioFile file) = False \<and>
      (\<exists>d. details (validateAudioFile file) = Some d \<and>
           maxSizeExceeded d = True \<and> fileSize d = file_size file)) \<and>
   (file_size file' = file_size file \<and> file_type file' = file_type file \<and>
    file_name file' = file_name file \<longrightarrow>
      validateAudioFile file' = validateAudioFile file)"
  by (simp add: validateAudioFile_def MAX_FILE_SIZE_def Let_def)

theorem validateAudioFile_oversized_witness:
  "file_size big_txt > 26214400 \<and> valid (validateAudioFile big_txt) = False \<and>
   (\<exists>d. details (validateAudioFile big_txt) = Some d \<and>
        maxSizeExceeded d = True \<and> fileSize d = 31457280) \<and>
   validateAudioFile (big_txt \<lparr> arrayBuffer := Inl NonError \<rparr>) = validateAudioFile big_txt"
  using validateAudioFile_oversized [of big_txt "big_txt \<lparr> arrayBuffer := Inl NonError \<rparr>"]
  by (simp add: big_txt_def)

text \<open>
  C10. For an oversized artifact the size check returns at once, so
  \<open>details.unsupportedFormat\<close> is false whatever the media type and the extension are,
  also when both are unsupported.
\<close>

theorem validateAudioFile_oversized_format_not_checked:
  "file_size file > 26214400 \<Longrightarrow>
     map_option unsupportedFormat (details (validateAudioFile file)) = Some False"
  by (simp add: validateAudioFile_def MAX_FILE_SIZE_def)

theorem validateAudioFile_oversized_format_not_checked_witness:
  "file_size big_txt > 26214400 \<and>
   file_type big_txt \<notin> set SUPPORTED_MIME_TYPES \<and>
   split_dot_pop (toLowerCase (file_name big_txt)) \<notin> set SUPPORTED_EXTENSIONS \<and>
   map_option unsupportedFormat (details (validateAudioFile big_txt)) = Some False"
proof -
  have size: "file_size big_txt > 26214400"
    by (simp add: big_txt_def)
  have mime: "file_type big_txt \<notin> set SUPPORTED_MIME_TYPES"
    by (simp add: big_txt_def SUPPORTED_MIME_TYPES_def lit_inj)
  have "split_dot_pop (toLowerCase (file_name big_txt)) = lit ''txt''"
    by (simp add: big_txt_def split_dot_pop_def toLowerCase_def lit_def u16_def)
  then have ext: "split_dot_pop (toLowerCase (file_name big_txt)) \<notin> set SUPPORTED_EXTENSIONS"
    by (simp add: SUPPORTED_EXTENSIONS_def lit_inj)
  from size mime ext validateAudioFile_oversized_format_not_checked [OF size]
  show ?thesis by blast
qed

section \<open>The paths of a run\<close>

text \<open>
  What \<open>processVoicePipeline\<close> leaves behind on each of its seven paths, and that every
  run takes one of them.
\<close>

lemma trim_is_empty_Inr:
  "trim_is_empty v x = Inr b \<longleftrightarrow> (\<exists>s. x = JStr s \<and> b = (trim s = []))"
  by (cases x) (auto simp: trim_is_empty_def)

lemma validatePipelineStages_True:
  "validatePipelineStages t l = Inr True \<longleftrightarrow>
     (\<exists>s s'. t = JStr s \<and> l = JStr s' \<and> trim s \<noteq> [] \<and> trim s' \<noteq> [])"
proof
  assume a: "validatePipelineStages t l = Inr True"
  then obtain s where s: "t = JStr s" "trim s \<noteq> []"
    by (auto simp: validatePipelineStages_def trim_is_empty_Inr
             split: if_splits sum.splits bool.splits)
  with a obtain s' where "l = JStr s'" "trim s' \<noteq> []"
    by (auto simp: validatePipelineStages_def trim_is_empty_Inr
             split: if_splits sum.splits bool.splits)
  with s show "\<exists>s s'. t = JStr s \<and> l = JStr s' \<and> trim s \<noteq> [] \<and> trim s' \<noteq> []"
    by blast
next
  assume "\<exists>s s'. t = JStr s \<and> l = JStr s' \<and> trim s \<noteq> [] \<and> trim s' \<noteq> []"
  then obtain s s' where h: "t = JStr s" "l = JStr s'" "trim s \<noteq> []" "trim s' \<noteq> []"
    by blast
  have "s \<noteq> []" "s' \<noteq> []"
    using h by (auto simp: trim_def)
  with h show "validatePipelineStages t l = Inr True"
    by (simp add: validatePipelineStages_def trim_is_empty_def)
qed

lemma pvp_invalid:
  assumes "\<not> valid (validateAudioFile f)"
  shows "processVoicePipeline h f e =
     \<lparr> stagesLog = [\<lparr> stage = validation, success = False,
                       durationMs = Date_now h 2 - Date_now h 1,
                       sr_error = vr_error (validateAudioFile f) \<rparr>],
       calls = [],
       outcome = Inl (PipelineErr (new_PipelineError
                   (or_default (vr_error (validateAudioFile f)) (lit ''Validation failed''))
                   validation None)) \<rparr>"
  using assms by (simp add: processVoicePipeline_def pipeline_try_def Let_def)

lemma pvp_whisper_failed:
  assumes "valid (validateAudioFile f)" and "transcribeAudio f e = (cs2, Inl err)"
  shows "processVoicePipeline h f e =
     \<lparr> stagesLog = [\<lparr> stage = validation, success = True,
                       durationMs = Date_now h 2 - Date_now h 1,
                       sr_error = vr_error (validateAudioFile f) \<rparr>,
                     stage_failed whisper (Date_now h 4 - Date_now h 3) (message_or_unknown err)],
       calls = cs2,
       outcome = Inl (PipelineErr (new_PipelineError (lit ''Whisper transcription failed'')
                   whisper (message_or_undefined err))) \<rparr>"
  using assms by (simp add: processVoicePipeline_def pipeline_try_def Let_def)

lemma pvp_llama_failed:
  assumes "valid (validateAudioFile f)" and "transcribeAudio f e = (cs2, Inr t)"
    and "processTextWithLLM t e = (cs3, Inl err)"
  shows "processVoicePipeline h f e =
     \<lparr> stagesLog = [\<lparr> stage = validation, success = True,
                       durationMs = Date_now h 2 - Date_now h 1,
                       sr_error = vr_error (validateAudioFile f) \<rparr>,
                     stage_ok whisper (Date_now h 4 - Date_now h 3),
                     stage_failed llama (Date_now h 6 - Date_now h 5) (message_or_unknown err)],
       calls = cs2 @ cs3,
       outcome = Inl (PipelineErr (new_PipelineError (lit ''LLM processing failed'')
                   llama (message_or_undefined err))) \<rparr>"
  using assms by (simp add: processVoicePipeline_def pipeline_try_def Let_def)

lemma pvp_check_threw:
  assumes "valid (validateAudioFile f)" and "transcribeAudio f e = (cs2, Inr t)"
    and "processTextWithLLM t e = (cs3, Inr l)"
    and "validatePipelineStages t l = Inl err"
  shows "processVoicePipeline h f e =
     \<lparr> stagesLog = [\<lparr> stage = validation, success = True,
                       durationMs = Date_now h 2 - Date_now h 1,
                       sr_error = vr_error (validateAudioFile f) \<rparr>,
                     stage_ok whisper (Date_now h 4 - Date_now h 3),
                     stage_ok llama (Date_now h 6 - Date_now h 5)],
       calls = cs2 @ cs3,
       outcome = Inl (PipelineErr (new_PipelineError (lit ''Unknown pipeline error'')
                   response_assembly (message_or_undefined err))) \<rparr>"
  using assms by (simp add: processVoicePipeline_def pipeline_try_def Let_def)

lemma pvp_check_failed:
  assumes "valid (validateAudioFile f)" and "transcribeAudio f e = (cs2, Inr t)"
    and "processTextWithLLM t e = (cs3, Inr l)"
    and "validatePipelineStages t l = Inr False"
  shows "processVoicePipeline h f e =
     \<lparr> stagesLog = [\<lparr> stage = validation, success = True,
                       durationMs = Date_now h 2 - Date_now h 1,
                       sr_error = vr_error (validateAudioFile f) \<rparr>,
                     stage_ok whisper (Date_now h 4 - Date_now h 3),
                     stage_ok llama (Date_now h 6 - Date_now h 5),
                     stage_failed response_assembly 0 (lit ''Invalid pipeline output'')],
       calls = cs2 @ cs3,
       outcome = Inl (PipelineErr (new_PipelineError (lit ''Pipeline validation failed'')
                   response_assembly None)) \<rparr>"
  using assms by (simp add: processVoicePipeline_def pipeline_try_def Let_def)

lemma pvp_hume_failed:
  assumes "valid (validateAudioFile f)" and "transcribeAudio f e = (cs2, Inr t)"
    and "processTextWithLLM t e = (cs3, Inr l)"
    and "validatePipelineStages t l = Inr True"
    and "synthesizeSpeech h e l = (cs4, Inl err)"
  shows "processVoicePipeline h f e =
     \<lparr> stagesLog = [\<lparr> stage = validation, success = True,
                       durationMs = Date_now h 2 - Date_now h 1,
                       sr_error = vr_error (validateAudioFile f) \<rparr>,
                     stage_ok whisper (Date_now h 4 - Date_now h 3),
                     stage_ok llama (Date_now h 6 - Date_now h 5),
                     stage_failed hume (Date_now h 8 - Date_now h 7) (message_or_unknown err)],
       calls = cs2 @ cs3 @ cs4,
       outcome = Inl (PipelineErr (new_PipelineError (lit ''Text-to-speech synthesis failed'')
                   hume (message_or_undefined err))) \<rparr>"
  using assms by (simp add: processVoicePipeline_def pipeline_try_def Let_def)

lemma pvp_success:
  assumes "valid (validateAudioFile f)" and "transcribeAudio f e = (cs2, Inr (JStr s))"
    and "processTextWithLLM (JStr s) e = (cs3, Inr l)"
    and "validatePipelineStages (JStr s) l = Inr True"
    and "synthesizeSpeech h e l = (cs4, Inr audio)"
  shows "stagesLog (processVoicePipeline h f e) =
           [\<lparr> stage = validation, success = True,
              durationMs = Date_now h 2 - Date_now h 1,
              sr_error = vr_error (validateAudioFile f) \<rparr>,
            stage_ok whisper (Date_now h 4 - Date_now h 3),
            stage_ok llama (Date_now h 6 - Date_now h 5),
            stage_ok hume (Date_now h 8 - Date_now h 7),
            stage_ok response_assembly (Date_now h 10 - Date_now h 9)]"
    and "calls (processVoicePipeline h f e) = cs2 @ cs3 @ cs4"
    and "outcome (processVoicePipeline h f e) = Inr
           \<lparr> audioBase64 = audio,
             metadata = \<lparr> originalDuration =
                 (if file_size f > 0 then Some ((file_size f + 15999) div 16000) else None),
               transcriptLength = JNum (of_nat (length s)),
               processingTimeMs = Date_now h 11 - Date_now h 0,
               pipelineStages = stagesLog (processVoicePipeline h f e) \<rparr> \<rparr>"
  using assms
  by (simp_all add: processVoicePipeline_def pipeline_try_def Let_def extractAudioMetadata_def)

text \<open>Every run takes exactly one of seven paths.\<close>

lemma pvp_paths:
  obtains
    (invalid) "\<not> valid (validateAudioFile f)"
  | (whisper_failed) cs2 err where
      "valid (validateAudioFile f)" "transcribeAudio f e = (cs2, Inl err)"
  | (llama_failed) cs2 t cs3 err where
      "valid (validateAudioFile f)" "transcribeAudio f e = (cs2, Inr t)"
      "processTextWithLLM t e = (cs3, Inl err)"
  | (check_threw) cs2 t cs3 l err where
      "valid (validateAudioFile f)" "transcribeAudio f e = (cs2, Inr t)"
      "processTextWithLLM t e = (cs3, Inr l)" "validatePipelineStages t l = Inl err"
  | (check_failed) cs2 t cs3 l where
      "valid (validateAudioFile f)" "transcribeAudio f e = (cs2, Inr t)"
      "processTextWithLLM t e = (cs3, Inr l)" "validatePipelineStages t l = Inr False"
  | (hume_failed) cs2 t cs3 l cs4 err where
      "valid (validateAudioFile f)" "transcribeAudio f e = (cs2, Inr t)"
      "processTextWithLLM t e = (cs3, Inr l)" "validatePipelineStages t l = Inr True"
      "synthesizeSpeech h e l = (cs4, Inl err)"
  | (succeeded) cs2 s cs3 l cs4 audio where
      "valid (validateAudioFile f)" "transcribeAudio f e = (cs2, Inr (JStr s))"
      "processTextWithLLM (JStr s) e = (cs3, Inr l)"
      "validatePipelineStages (JStr s) l = Inr True"
      "synthesizeSpeech h e l = (cs4, Inr audio)"
proof (cases "valid (validateAudioFile f)")
  case False
  then show ?thesis by (rule invalid)
next
  case v: True
  obtain cs2 r2 where w: "transcribeAudio f e = (cs2, r2)" by (cases "transcribeAudio f e")
  show ?thesis
  proof (cases r2)
    case (Inl err)
    with v w show ?thesis by (auto intro: whisper_failed)
  next
    case (Inr t)
    obtain cs3 r3 where g: "processTextWithLLM t e = (cs3, r3)"
      by (cases "processTextWithLLM t e")
    show ?thesis
    proof (cases r3)
      case (Inl err)
      with v w g Inr show ?thesis by (auto intro: llama_failed)
    next
      case l: (Inr l)
      show ?thesis
      proof (cases "validatePipelineStages t l")
        case (Inl err)
        with v w g Inr l show ?thesis by (auto intro: check_threw)
      next
        case c: (Inr b)
        show ?thesis
        proof (cases b)
          case False
          with v w g Inr l c show ?thesis by (auto intro: check_failed)
        next
          case True
          obtain cs4 r4 where s: "synthesizeSpeech h e l = (cs4, r4)"
            by (cases "synthesizeSpeech h e l")
          show ?thesis
          proof (cases r4)
            case (Inl err)
            with v w g Inr l c True s show ?thesis by (auto intro: hume_failed)
          next
            case (Inr audio)
            from c True obtain s' where "t = JStr s'"
              by (auto simp: validatePipelineStages_True)
            with v w g \<open>r2 = Inr t\<close> l c True s Inr show ?thesis
              by (auto intro: succeeded)
          qed
        qed
      qed
    qed
  qed
qed

section \<open>Facts about the stage blocks and the concrete runs\<close>

lemma index_of_key_0: "index_of_key (Suc n) (lit ''0'') = Some 0"
proof -
  have "dec 0 = lit ''0''"
    by (simp add: dec.simps lit_def u16_def)
  then show ?thesis
    by (simp add: index_of_key_def upt_rec [of 0])
qed

lemma valid_wav_file: "valid (validateAudioFile wav_file)"
  by (simp add: validateAudioFile_def wav_file_def MAX_FILE_SIZE_def
        SUPPORTED_MIME_TYPES_def Let_def)

lemma transcribeAudio_resolved:
  assumes "arrayBuffer f = Inr bytes"
    and "AI_run e (lit ''whisper-large-v3'') (whisper_params bytes) = Inr resp"
  shows "transcribeAudio f e =
     ([AI_run_call (lit ''whisper-large-v3'') (whisper_params bytes)], js_get resp (lit ''text''))"
  using assms by (simp add: transcribeAudio_def)

lemma transcribeAudio_rejected:
  assumes "arrayBuffer f = Inr bytes"
    and "AI_run e (lit ''whisper-large-v3'') (whisper_params bytes) = Inl err"
  shows "transcribeAudio f e =
     ([AI_run_call (lit ''whisper-large-v3'') (whisper_params bytes)], Inl err)"
  using assms by (simp add: transcribeAudio_def)

lemma transcribeAudio_calls:
  "c \<in> set (fst (transcribeAudio f e)) \<Longrightarrow> is_whisper_call c"
  by (auto simp: transcribeAudio_def Let_def split: sum.splits)

lemma processTextWithLLM_calls:
  "fst (processTextWithLLM t e) = [AI_run_call (lit ''llama-3.3-70b'') (llama_params t)]"
  by (simp add: processTextWithLLM_def Let_def split: sum.splits)

lemma wav_transcribed:
  "transcribeAudio wav_file (mk_env (whisper_says s) l) =
     ([AI_run_call (lit ''whisper-large-v3'') (whisper_params [0x52, 0x49, 0x46, 0x46])],
      Inr (JStr s))"
  by (simp add: transcribeAudio_def wav_file_def mk_env_def whisper_says_def)

lemma wav_whisper_rejected:
  "transcribeAudio wav_file (mk_env (Inl err) l) =
     ([AI_run_call (lit ''whisper-large-v3'') (whisper_params [0x52, 0x49, 0x46, 0x46])],
      Inl err)"
  by (simp add: transcribeAudio_def wav_file_def mk_env_def)

lemma llama_answered:
  "processTextWithLLM t (mk_env w (llama_says s)) =
     ([AI_run_call (lit ''llama-3.3-70b'') (llama_params t)], Inr (JStr s))"
  by (simp add: processTextWithLLM_def mk_env_def llama_says_def lit_inj index_of_key_0)

lemma hume_ok_audio:
  "synthesizeSpeech (mk_host hume_ok) e l =
     ([fetch_call (lit ''https://api.hume.ai/v0/tts'') (hume_init e l)],
      Inr (JStr (lit ''base64-encoded-audio-data'')))"
  by (simp add: synthesizeSpeech_def mk_host_def hume_ok_def audio_of_ttsData_def
        lit_inj index_of_key_0 lit_Nil)

lemma trim_hello: "trim (lit ''hello world'') \<noteq> []"
  by (simp add: trim_def lit_def u16_def is_ws_def)

lemma trim_hi: "trim (lit ''Hi there!'') \<noteq> []"
  by (simp add: trim_def lit_def u16_def is_ws_def)

lemma check_hello_hi:
  "validatePipelineStages (JStr (lit ''hello world'')) (JStr (lit ''Hi there!'')) = Inr True"
  by (simp add: validatePipelineStages_True trim_hello trim_hi)

lemma check_empty_transcript: "validatePipelineStages (JStr []) l = Inr False"
  by (simp add: validatePipelineStages_def)

lemma check_undefined_transcript: "validatePipelineStages JUndefined l = Inr False"
  by (simp add: validatePipelineStages_def)

lemma blank_transcript_fails_check:
  "blank_text t \<Longrightarrow> validatePipelineStages t l = Inr False"
  by (cases t) (auto simp: validatePipelineStages_def trim_is_empty_def trim_def)

lemma blank_response_fails_check:
  assumes "is_text t" and "blank_text l"
  shows "validatePipelineStages t l = Inr False"
proof (cases "blank_text t")
  case True
  then show ?thesis by (rule blank_transcript_fails_check)
next
  case False
  from assms(1) obtain s where t: "t = JStr s"
    by (cases t) auto
  with False have "trim s \<noteq> []" by simp
  then have s: "trim s \<noteq> []" "s \<noteq> []"
    by (auto simp: trim_def)
  from assms(2) have "\<not> truthy l \<or> trim_is_empty (lit ''llmOutput'') l = Inr True"
    by (cases l) (auto simp: trim_is_empty_def)
  with t s show ?thesis
    by (auto simp: validatePipelineStages_def trim_is_empty_def)
qed

lemma scenario_D:
  "processVoicePipeline (mk_host hume_ok) wav_file
     (mk_env (whisper_says []) (llama_says (lit ''Hi there!''))) =
     \<lparr> stagesLog = [\<lparr> stage = validation, success = True,
                       durationMs = Date_now (mk_host hume_ok) 2 - Date_now (mk_host hume_ok) 1,
                       sr_error = vr_error (validateAudioFile wav_file) \<rparr>,
                     stage_ok whisper (Date_now (mk_host hume_ok) 4 - Date_now (mk_host hume_ok) 3),
                     stage_ok llama (Date_now (mk_host hume_ok) 6 - Date_now (mk_host hume_ok) 5),
                     stage_failed response_assembly 0 (lit ''Invalid pipeline output'')],
       calls = [AI_run_call (lit ''whisper-large-v3'') (whisper_params [0x52, 0x49, 0x46, 0x46])] @
               [AI_run_call (lit ''llama-3.3-70b'') (llama_params (JStr []))],
       outcome = Inl (PipelineErr (new_PipelineError (lit ''Pipeline validation failed'')
                   response_assembly None)) \<rparr>"
  by (rule pvp_check_failed [OF valid_wav_file wav_transcribed llama_answered
        check_empty_transcript])

lemma scenario_A:
  "outcome (processVoicePipeline (mk_host hume_ok) wav_file
     (mk_env (whisper_says (lit ''hello world'')) (llama_says (lit ''Hi there!'')))) =
   Inr \<lparr> audioBase64 = JStr (lit ''base64-encoded-audio-data''),
         metadata = \<lparr> originalDuration = Some 1,
           transcriptLength = JNum 11,
           processingTimeMs = 110,
           pipelineStages = stagesLog (processVoicePipeline (mk_host hume_ok) wav_file
             (mk_env (whisper_says (lit ''hello world'')) (llama_says (lit ''Hi there!'')))) \<rparr> \<rparr>"
proof -
  have "length (lit ''hello world'') = 11" by (simp add: lit_def)
  with pvp_success(3) [OF valid_wav_file wav_transcribed llama_answered check_hello_hi
      hume_ok_audio]
  show ?thesis by (simp add: wav_file_def mk_host_def)
qed

lemma scenario_C:
  "stagesLog (processVoicePipeline (mk_host hume_ok) wav_file
     (mk_env (Inl (ErrorInstance (lit ''Whisper API error''))) (llama_says (lit ''Hi there!'')))) =
   [\<lparr> stage = validation, success = True, durationMs = 10, sr_error = None \<rparr>,
    stage_failed whisper 10 (lit ''Whisper API error'')]"
  "outcome (processVoicePipeline (mk_host hume_ok) wav_file
     (mk_env (Inl (ErrorInstance (lit ''Whisper API error''))) (llama_says (lit ''Hi there!'')))) =
   Inl (PipelineErr \<lparr> pe_message = lit ''Whisper transcription failed'', pe_stage = whisper,
                      pe_details = Some (lit ''Whisper API error'') \<rparr>)"
  using pvp_whisper_failed [OF valid_wav_file wav_whisper_rejected, where h = "mk_host hume_ok"]
  by (simp_all add: mk_host_def validateAudioFile_def wav_file_def MAX_FILE_SIZE_def
        SUPPORTED_MIME_TYPES_def Let_def new_PipelineError_def)




lemma no_hume_call_before_synthesis:
  assumes "transcribeAudio f e = (cs2, r2)" and "processTextWithLLM t e = (cs3, r3)"
  shows "\<not> (\<exists>c \<in> set (cs2 @ cs3). is_hume_call c)"
proof -
  have "\<forall>c \<in> set cs2. is_whisper_call c"
    using transcribeAudio_calls [of _ f e] assms(1) by simp
  then have "\<forall>c \<in> set cs2. \<not> is_hume_call c"
    by (metis is_hume_call.elims(2) is_whisper_call.simps(2))
  moreover have "cs3 = [AI_run_call (lit ''llama-3.3-70b'') (llama_params t)]"
    using processTextWithLLM_calls [of t e] assms(2) by simp
  ultimately show ?thesis by auto
qed

lemma nullish_get: "nullish v \<Longrightarrow> \<exists>err. js_get v k = Inl err"
  by (cases v) simp_all

lemma wav_no_text:
  "transcribeAudio wav_file (mk_env (Inr (JObj [])) l) =
     ([AI_run_call (lit ''whisper-large-v3'') (whisper_params [0x52, 0x49, 0x46, 0x46])],
      Inr JUndefined)"
  by (simp add: transcribeAudio_def wav_file_def mk_env_def)

lemma scenario_no_text:
  "processVoicePipeline (mk_host hume_ok) wav_file
     (mk_env (Inr (JObj [])) (llama_says (lit ''Hi there!''))) =
     \<lparr> stagesLog = [\<lparr> stage = validation, success = True,
                       durationMs = Date_now (mk_host hume_ok) 2 - Date_now (mk_host hume_ok) 1,
                       sr_error = vr_error (validateAudioFile wav_file) \<rparr>,
                     stage_ok whisper (Date_now (mk_host hume_ok) 4 - Date_now (mk_host hume_ok) 3),
                     stage_ok llama (Date_now (mk_host hume_ok) 6 - Date_now (mk_host hume_ok) 5),
                     stage_failed response_assembly 0 (lit ''Invalid pipeline output'')],
       calls = [AI_run_call (lit ''whisper-large-v3'') (whisper_params [0x52, 0x49, 0x46, 0x46])] @
               [AI_run_call (lit ''llama-3.3-70b'') (llama_params JUndefined)],
       outcome = Inl (PipelineErr (new_PipelineError (lit ''Pipeline validation failed'')
                   response_assembly None)) \<rparr>"
  by (rule pvp_check_failed [OF valid_wav_file wav_no_text llama_answered
        check_undefined_transcript])





subsection \<open>Decimal rendering and the request id\<close>















section \<open>Properties of the orchestrator\<close>

text \<open>
  C1, as the code has it. The log has length 5 and no failed entry when the run succeeds.
  When the first failed entry is for validation, whisper, llama or hume, the log's length
  is that stage's index plus one. The stage of the first failed entry is the tag of the
  \<open>PipelineError\<close> the run rejects with, and a tag other than \<open>response-assembly\<close> is
  the stage of the first failed entry. When the output check returns false, the first
  failed entry is tagged \<open>response-assembly\<close>; whenever the first failed entry is tagged
  \<open>response-assembly\<close> the log has length 4 (validation, whisper, llama and the failed
  entry): the hume stage was never attempted, so the length is not the index of
  \<open>response-assembly\<close> plus one.
\<close>

theorem stage_log_length:
  "(\<forall>res. outcome (processVoicePipeline h f e) = Inr res \<longrightarrow>
      length (stagesLog (processVoicePipeline h f e)) = 5 \<and>
      first_failing (stagesLog (processVoicePipeline h f e)) = None) \<and>
   (\<forall>s. first_failing (stagesLog (processVoicePipeline h f e)) = Some s \<longrightarrow>
      s \<noteq> response_assembly \<longrightarrow>
      length (stagesLog (processVoicePipeline h f e)) = stage_index s + 1) \<and>
   (first_failing (stagesLog (processVoicePipeline h f e)) = Some response_assembly \<longrightarrow>
      length (stagesLog (processVoicePipeline h f e)) = 4) \<and>
   (\<forall>pe. outcome (processVoicePipeline h f e) = Inl (PipelineErr pe) \<longrightarrow>
      pe_stage pe \<noteq> response_assembly \<longrightarrow>
      first_failing (stagesLog (processVoicePipeline h f e)) = Some (pe_stage pe)) \<and>
   (\<forall>s. first_failing (stagesLog (processVoicePipeline h f e)) = Some s \<longrightarrow>
      (\<exists>pe. outcome (processVoicePipeline h f e) = Inl (PipelineErr pe) \<and> pe_stage pe = s)) \<and>
   (\<forall>cs2 t cs3 l.
      valid (validateAudioFile f) \<and> transcribeAudio f e = (cs2, Inr t) \<and>
      processTextWithLLM t e = (cs3, Inr l) \<and> validatePipelineStages t l = Inr False \<longrightarrow>
      first_failing (stagesLog (processVoicePipeline h f e)) = Some response_assembly)"
proof (cases rule: pvp_paths [where f = f and e = e and h = h])
  case invalid
  from pvp_invalid [OF this, of h e] invalid show ?thesis
    by (simp add: first_failing_def new_PipelineError_def)
next
  case (whisper_failed cs2 err)
  from pvp_whisper_failed [OF this, of h] whisper_failed show ?thesis
    by (simp add: first_failing_def new_PipelineError_def stage_failed_def)
next
  case (llama_failed cs2 t cs3 err)
  from pvp_llama_failed [OF this, of h] llama_failed show ?thesis
    by (simp add: first_failing_def new_PipelineError_def stage_failed_def stage_ok_def)
next
  case (check_threw cs2 t cs3 l err)
  from pvp_check_threw [OF this, of h] check_threw show ?thesis
    by (simp add: first_failing_def new_PipelineError_def stage_ok_def)
next
  case (check_failed cs2 t cs3 l)
  from pvp_check_failed [OF this, of h] show ?thesis
    by (simp add: first_failing_def new_PipelineError_def stage_failed_def stage_ok_def)
next
  case (hume_failed cs2 t cs3 l cs4 err)
  from pvp_hume_failed [OF this] hume_failed show ?thesis
    by (simp add: first_failing_def new_PipelineError_def stage_failed_def stage_ok_def)
next
  case (succeeded cs2 s cs3 l cs4 audio)
  from pvp_success(1,3) [OF this] succeeded show ?thesis
    by (simp add: first_failing_def stage_ok_def)
qed

text \<open>
  C1 as stated fails when the transcript is empty: the first failed entry is tagged
  \<open>response-assembly\<close> (index 4), yet the log has 4 entries, not 5.
\<close>

theorem stage_log_length_counterexample:
  "first_failing (stagesLog (processVoicePipeline (mk_host hume_ok) wav_file
      (mk_env (whisper_says []) (llama_says (lit ''Hi there!''))))) = Some response_assembly \<and>
   length (stagesLog (processVoicePipeline (mk_host hume_ok) wav_file
      (mk_env (whisper_says []) (llama_says (lit ''Hi there!''))))) = 4 \<and>
   (4::nat) \<noteq> stage_index response_assembly + 1"
  by (simp add: scenario_D first_failing_def stage_ok_def stage_failed_def)

theorem stage_log_length_witness:
  "(\<exists>res. outcome (processVoicePipeline (mk_host hume_ok) wav_file
       (mk_env (whisper_says (lit ''hello world'')) (llama_says (lit ''Hi there!'')))) = Inr res) \<and>
   length (stagesLog (processVoicePipeline (mk_host hume_ok) wav_file
       (mk_env (whisper_says (lit ''hello world'')) (llama_says (lit ''Hi there!''))))) = 5 \<and>
   outcome (processVoicePipeline (mk_host hume_ok) wav_file
       (mk_env (Inl (ErrorInstance (lit ''Whisper API error''))) (llama_says (lit ''Hi there!'')))) =
     Inl (PipelineErr \<lparr> pe_message = lit ''Whisper transcription failed'', pe_stage = whisper,
                        pe_details = Some (lit ''Whisper API error'') \<rparr>) \<and>
   first_failing (stagesLog (processVoicePipeline (mk_host hume_ok) wav_file
       (mk_env (Inl (ErrorInstance (lit ''Whisper API error''))) (llama_says (lit ''Hi there!''))))) =
     Some whisper \<and>
   length (stagesLog (processVoicePipeline (mk_host hume_ok) wav_file
       (mk_env (Inl (ErrorInstance (lit ''Whisper API error''))) (llama_says (lit ''Hi there!''))))) =
     stage_index whisper + 1 \<and>
   first_failing (stagesLog (processVoicePipeline (mk_host hume_ok) wav_file
      (mk_env (whisper_says []) (llama_says (lit ''Hi there!''))))) = Some response_assembly \<and>
   length (stagesLog (processVoicePipeline (mk_host hume_ok) wav_file
      (mk_env (whisper_says []) (llama_says (lit ''Hi there!''))))) = 4"
proof -
  have c: "first_failing (stagesLog (processVoicePipeline (mk_host hume_ok) wav_file
       (mk_env (Inl (ErrorInstance (lit ''Whisper API error''))) (llama_says (lit ''Hi there!''))))) =
     Some whisper"
    by (simp add: scenario_C(1) first_failing_def stage_failed_def)
  have d: "first_failing (stagesLog (processVoicePipeline (mk_host hume_ok) wav_file
      (mk_env (whisper_says []) (llama_says (lit ''Hi there!''))))) = Some response_assembly"
    by (simp add: scenario_D first_failing_def stage_ok_def stage_failed_def)
  from scenario_A scenario_C(2) c d
    stage_log_length [of "mk_host hume_ok" wav_file
      "mk_env (whisper_says (lit ''hello world'')) (llama_says (lit ''Hi there!''))"]
    stage_log_length [of "mk_host hume_ok" wav_file
      "mk_env (Inl (ErrorInstance (lit ''Whisper API error''))) (llama_says (lit ''Hi there!''))"]
    stage_log_length [of "mk_host hume_ok" wav_file
      "mk_env (whisper_says []) (llama_says (lit ''Hi there!''))"]
  show ?thesis by simp
qed



text \<open>
  C5. If validation succeeds and the whisper call rejects, the run rejects with a
  \<open>PipelineError\<close> tagged \<open>whisper\<close>, the log has exactly two entries (validation
  succeeded, whisper failed), and neither the llama call nor the hume call is issued.
\<close>

theorem whisper_rejection_stops_run:
  assumes "valid (validateAudioFile f)"
    and "arrayBuffer f = Inr bytes"
    and "AI_run e (lit ''whisper-large-v3'') (whisper_params bytes) = Inl err"
  shows "(\<exists>pe. outcome (processVoicePipeline h f e) = Inl (PipelineErr pe) \<and>
              pe_stage pe = whisper) \<and>
         map stage (stagesLog (processVoicePipeline h f e)) = [validation, whisper] \<and>
         map success (stagesLog (processVoicePipeline h f e)) = [True, False] \<and>
         \<not> (\<exists>c \<in> set (calls (processVoicePipeline h f e)). is_llama_call c \<or> is_hume_call c)"
proof -
  have "transcribeAudio f e =
          ([AI_run_call (lit ''whisper-large-v3'') (whisper_params bytes)], Inl err)"
    using assms(2,3) by (rule transcribeAudio_rejected)
  from pvp_whisper_failed [OF assms(1) this, of h]
  show ?thesis
    by (simp add: new_PipelineError_def stage_failed_def lit_inj)
qed

theorem whisper_rejection_stops_run_witness:
  "valid (validateAudioFile wav_file) \<and>
   arrayBuffer wav_file = Inr [0x52, 0x49, 0x46, 0x46] \<and>
   AI_run (mk_env (Inl (ErrorInstance (lit ''Whisper API error''))) (llama_says (lit ''Hi there!'')))
     (lit ''whisper-large-v3'') (whisper_params [0x52, 0x49, 0x46, 0x46])
     = Inl (ErrorInstance (lit ''Whisper API error'')) \<and>
   map stage (stagesLog (processVoicePipeline (mk_host hume_ok) wav_file
     (mk_env (Inl (ErrorInstance (lit ''Whisper API error''))) (llama_says (lit ''Hi there!'')))))
     = [validation, whisper]"
proof -
  have a: "arrayBuffer wav_file = Inr [0x52, 0x49, 0x46, 0x46]"
    by (simp add: wav_file_def)
  have b: "AI_run (mk_env (Inl (ErrorInstance (lit ''Whisper API error''))) (llama_says (lit ''Hi there!'')))
     (lit ''whisper-large-v3'') (whisper_params [0x52, 0x49, 0x46, 0x46])
     = Inl (ErrorInstance (lit ''Whisper API error''))"
    by (simp add: mk_env_def)
  from whisper_rejection_stops_run [OF valid_wav_file a b, of "mk_host hume_ok"]
    valid_wav_file a b
  show ?thesis by blast
qed

text \<open>
  C8. In a successful run, \<open>transcriptLength\<close> is the length of the transcript that the
  transcription stage produced, and \<open>pipelineStages\<close> has the five stages in order, each
  with \<open>success = true\<close>.
\<close>

theorem success_metadata:
  assumes "outcome (processVoicePipeline h f e) = Inr res"
  shows "(\<exists>s. snd (transcribeAudio f e) = Inr (JStr s) \<and>
              transcriptLength (metadata res) = JNum (of_nat (length s))) \<and>
         map stage (pipelineStages (metadata res)) =
           [validation, whisper, llama, hume, response_assembly] \<and>
         (\<forall>r \<in> set (pipelineStages (metadata res)). success r = True)"
proof (cases rule: pvp_paths [where f = f and e = e and h = h])
  case invalid
  from pvp_invalid [OF this, of h e] assms show ?thesis by simp
next
  case (whisper_failed cs2 err)
  from pvp_whisper_failed [OF this, of h] assms show ?thesis by simp
next
  case (llama_failed cs2 t cs3 err)
  from pvp_llama_failed [OF this, of h] assms show ?thesis by simp
next
  case (check_threw cs2 t cs3 l err)
  from pvp_check_threw [OF this, of h] assms show ?thesis by simp
next
  case (check_failed cs2 t cs3 l)
  from pvp_check_failed [OF this, of h] assms show ?thesis by simp
next
  case (hume_failed cs2 t cs3 l cs4 err)
  from pvp_hume_failed [OF this] assms show ?thesis by simp
next
  case (succeeded cs2 s cs3 l cs4 audio)
  note run = pvp_success [OF this]
  from run(3) assms have "transcriptLength (metadata res) = JNum (of_nat (length s))"
    and "pipelineStages (metadata res) = stagesLog (processVoicePipeline h f e)"
    by auto
  with succeeded(2) run(1) show ?thesis
    by (simp add: stage_ok_def)
qed

theorem success_metadata_witness:
  "\<exists>res. outcome (processVoicePipeline (mk_host hume_ok) wav_file
       (mk_env (whisper_says (lit ''hello world'')) (llama_says (lit ''Hi there!'')))) = Inr res \<and>
     transcriptLength (metadata res) = JNum 11 \<and>
     map stage (pipelineStages (metadata res)) =
       [validation, whisper, llama, hume, response_assembly] \<and>
     (\<forall>r \<in> set (pipelineStages (metadata res)). success r = True)"
  using success_metadata [OF scenario_A] scenario_A by simp

text \<open>
  C2, as the code has it. A whisper response that is \<open>null\<close> or \<open>undefined\<close> is rejected
  with the \<open>whisper\<close> tag. A response that is a value without a usable text (the \<open>text\<close>
  field is missing, \<open>null\<close>, or a string that is empty after trimming) is not rejected by
  the transcription stage: the whisper entry is recorded as a success, and the run's calls
  are the whisper call followed by the llama call whose user message carries that text.
  If the llama call rejects, or more generally the llama stage throws, the run fails
  tagged \<open>llama\<close>; if the llama stage returns, the run fails at the output check, tagged
  \<open>response-assembly\<close> with the message \<open>Pipeline validation failed\<close>.
\<close>

theorem no_usable_text_not_rejected_by_whisper:
  assumes "valid (validateAudioFile f)"
    and "arrayBuffer f = Inr bytes"
    and "AI_run e (lit ''whisper-large-v3'') (whisper_params bytes) = Inr resp"
  shows "(nullish resp \<longrightarrow>
            (\<exists>pe. outcome (processVoicePipeline h f e) = Inl (PipelineErr pe) \<and>
                  pe_stage pe = whisper)) \<and>
         (\<forall>t. js_get resp (lit ''text'') = Inr t \<longrightarrow> blank_text t \<longrightarrow>
            stage (stagesLog (processVoicePipeline h f e) ! 1) = whisper \<and>
            success (stagesLog (processVoicePipeline h f e) ! 1) = True \<and>
            calls (processVoicePipeline h f e) =
              [AI_run_call (lit ''whisper-large-v3'') (whisper_params bytes),
               AI_run_call (lit ''llama-3.3-70b'')
                 (JObj [(lit ''messages'',
                      JArr [JObj [(lit ''role'', JStr (lit ''system'')),
                                  (lit ''content'', JStr (lit
     ''You are a helpful assistant that processes user speech input and provides thoughtful responses.''))],
                            JObj [(lit ''role'', JStr (lit ''user'')),
                                  (lit ''content'', t)]]),
                     (lit ''max_tokens'', JNum 1024),
                     (lit ''temperature'', JNum (7 / 10))])] \<and>
            (\<forall>err. AI_run e (lit ''llama-3.3-70b'')
                 (JObj [(lit ''messages'',
                      JArr [JObj [(lit ''role'', JStr (lit ''system'')),
                                  (lit ''content'', JStr (lit
     ''You are a helpful assistant that processes user speech input and provides thoughtful responses.''))],
                            JObj [(lit ''role'', JStr (lit ''user'')),
                                  (lit ''content'', t)]]),
                     (lit ''max_tokens'', JNum 1024),
                     (lit ''temperature'', JNum (7 / 10))]) = Inl err \<longrightarrow>
               outcome (processVoicePipeline h f e) =
                 Inl (PipelineErr \<lparr> pe_message = lit ''LLM processing failed'',
                                    pe_stage = llama,
                                    pe_details = message_or_undefined err \<rparr>)) \<and>
            (\<forall>err. snd (processTextWithLLM t e) = Inl err \<longrightarrow>
               outcome (processVoicePipeline h f e) =
                 Inl (PipelineErr \<lparr> pe_message = lit ''LLM processing failed'',
                                    pe_stage = llama,
                                    pe_details = message_or_undefined err \<rparr>)) \<and>
            (\<forall>l. snd (processTextWithLLM t e) = Inr l \<longrightarrow>
               outcome (processVoicePipeline h f e) =
                 Inl (PipelineErr \<lparr> pe_message = lit ''Pipeline validation failed'',
                                    pe_stage = response_assembly,
                                    pe_details = None \<rparr>)))"
proof (intro conjI impI allI)
  assume "nullish resp"
  then obtain err where "js_get resp (lit ''text'') = Inl err"
    using nullish_get by blast
  with transcribeAudio_resolved [OF assms(2,3)]
  have "transcribeAudio f e =
          ([AI_run_call (lit ''whisper-large-v3'') (whisper_params bytes)], Inl err)"
    by simp
  from pvp_whisper_failed [OF assms(1) this, of h]
  show "\<exists>pe. outcome (processVoicePipeline h f e) = Inl (PipelineErr pe) \<and> pe_stage pe = whisper"
    by (simp add: new_PipelineError_def)
next
  fix t
  assume t: "js_get resp (lit ''text'') = Inr t" and blank: "blank_text t"
  let ?cs3 = "[AI_run_call (lit ''llama-3.3-70b'') (llama_params t)]"
  from t transcribeAudio_resolved [OF assms(2,3)]
  have w: "transcribeAudio f e =
          ([AI_run_call (lit ''whisper-large-v3'') (whisper_params bytes)], Inr t)"
    by simp
  have stage3: "processTextWithLLM t e = (?cs3, snd (processTextWithLLM t e))"
    using processTextWithLLM_calls [of t e] by (simp add: prod_eq_iff)
  have failed: "outcome (processVoicePipeline h f e) =
                  Inl (PipelineErr \<lparr> pe_message = lit ''LLM processing failed'',
                                     pe_stage = llama,
                                     pe_details = message_or_undefined err \<rparr>)"
    if "snd (processTextWithLLM t e) = Inl err" for err
  proof -
    from that stage3 have "processTextWithLLM t e = (?cs3, Inl err)" by simp
    from pvp_llama_failed [OF assms(1) w this, of h] show ?thesis
      by (simp add: new_PipelineError_def)
  qed
  have log_calls: "stage (stagesLog (processVoicePipeline h f e) ! 1) = whisper \<and>
        success (stagesLog (processVoicePipeline h f e) ! 1) = True \<and>
        calls (processVoicePipeline h f e) =
          [AI_run_call (lit ''whisper-large-v3'') (whisper_params bytes),
           AI_run_call (lit ''llama-3.3-70b'') (llama_params t)]"
  proof (cases "snd (processTextWithLLM t e)")
    case (Inl err)
    with stage3 have "processTextWithLLM t e = (?cs3, Inl err)" by simp
    from pvp_llama_failed [OF assms(1) w this, of h] show ?thesis
      by (simp add: stage_ok_def)
  next
    case (Inr l)
    with stage3 have l: "processTextWithLLM t e = (?cs3, Inr l)" by simp
    from blank have "validatePipelineStages t l = Inr False"
      by (rule blank_transcript_fails_check)
    from pvp_check_failed [OF assms(1) w l this, of h] show ?thesis
      by (simp add: stage_ok_def)
  qed
  from log_calls show "stage (stagesLog (processVoicePipeline h f e) ! 1) = whisper"
    and "success (stagesLog (processVoicePipeline h f e) ! 1) = True"
    by simp_all
  from log_calls show "calls (processVoicePipeline h f e) =
              [AI_run_call (lit ''whisper-large-v3'') (whisper_params bytes),
               AI_run_call (lit ''llama-3.3-70b'')
                 (JObj [(lit ''messages'',
                      JArr [JObj [(lit ''role'', JStr (lit ''system'')),
                                  (lit ''content'', JStr (lit
     ''You are a helpful assistant that processes user speech input and provides thoughtful responses.''))],
                            JObj [(lit ''role'', JStr (lit ''user'')),
                                  (lit ''content'', t)]]),
                     (lit ''max_tokens'', JNum 1024),
                     (lit ''temperature'', JNum (7 / 10))])]"
    by (simp add: llama_params_def)
  {
    fix err
    assume "AI_run e (lit ''llama-3.3-70b'')
                 (JObj [(lit ''messages'',
                      JArr [JObj [(lit ''role'', JStr (lit ''system'')),
                                  (lit ''content'', JStr (lit
     ''You are a helpful assistant that processes user speech input and provides thoughtful responses.''))],
                            JObj [(lit ''role'', JStr (lit ''user'')),
                                  (lit ''content'', t)]]),
                     (lit ''max_tokens'', JNum 1024),
                     (lit ''temperature'', JNum (7 / 10))]) = Inl err"
    then have "snd (processTextWithLLM t e) = Inl err"
      by (simp add: processTextWithLLM_def llama_params_def Let_def)
    then show "outcome (processVoicePipeline h f e) =
                 Inl (PipelineErr \<lparr> pe_message = lit ''LLM processing failed'',
                                    pe_stage = llama,
                                    pe_details = message_or_undefined err \<rparr>)"
      by (rule failed)
  }
  {
    fix err
    assume "snd (processTextWithLLM t e) = Inl err"
    then show "outcome (processVoicePipeline h f e) =
                 Inl (PipelineErr \<lparr> pe_message = lit ''LLM processing failed'',
                                    pe_stage = llama,
                                    pe_details = message_or_undefined err \<rparr>)"
      by (rule failed)
  }
  {
    fix l
    assume "snd (processTextWithLLM t e) = Inr l"
    with stage3 have l: "processTextWithLLM t e = (?cs3, Inr l)" by simp
    from blank have "validatePipelineStages t l = Inr False"
      by (rule blank_transcript_fails_check)
    from pvp_check_failed [OF assms(1) w l this, of h]
    show "outcome (processVoicePipeline h f e) =
                 Inl (PipelineErr \<lparr> pe_message = lit ''Pipeline validation failed'',
                                    pe_stage = response_assembly,
                                    pe_details = None \<rparr>)"
      by (simp add: new_PipelineError_def)
  }
qed

text \<open>
  C2 as stated fails when whisper resolves with an object that has no \<open>text\<close> field: the
  whisper stage is logged as a success and the run fails tagged \<open>response-assembly\<close>.
\<close>

theorem no_usable_text_not_rejected_by_whisper_counterexample:
  "AI_run (mk_env (Inr (JObj [])) (llama_says (lit ''Hi there!'')))
      (lit ''whisper-large-v3'') (whisper_params [0x52, 0x49, 0x46, 0x46]) = Inr (JObj []) \<and>
   js_get (JObj []) (lit ''text'') = Inr JUndefined \<and>
   outcome (processVoicePipeline (mk_host hume_ok) wav_file
      (mk_env (Inr (JObj [])) (llama_says (lit ''Hi there!'')))) =
     Inl (PipelineErr \<lparr> pe_message = lit ''Pipeline validation failed'',
                        pe_stage = response_assembly, pe_details = None \<rparr>) \<and>
   response_assembly \<noteq> whisper \<and>
   stagesLog (processVoicePipeline (mk_host hume_ok) wav_file
      (mk_env (Inr (JObj [])) (llama_says (lit ''Hi there!'')))) ! 1 =
     \<lparr> stage = whisper, success = True, durationMs = 10, sr_error = None \<rparr>"
proof -
  have a: "AI_run (mk_env (Inr (JObj [])) (llama_says (lit ''Hi there!'')))
      (lit ''whisper-large-v3'') (whisper_params [0x52, 0x49, 0x46, 0x46]) = Inr (JObj [])"
    by (simp add: mk_env_def)
  have b: "Date_now (mk_host hume_ok) 4 - Date_now (mk_host hume_ok) 3 = 10"
    by (simp add: mk_host_def)
  show ?thesis
    by (simp add: a b scenario_no_text new_PipelineError_def stage_ok_def)
qed

theorem no_usable_text_not_rejected_by_whisper_witness:
  "valid (validateAudioFile wav_file) \<and>
   arrayBuffer wav_file = Inr [0x52, 0x49, 0x46, 0x46] \<and>
   AI_run (mk_env (Inr (JObj [])) (llama_says (lit ''Hi there!'')))
      (lit ''whisper-large-v3'') (whisper_params [0x52, 0x49, 0x46, 0x46]) = Inr (JObj []) \<and>
   js_get (JObj []) (lit ''text'') = Inr JUndefined \<and> blank_text JUndefined \<and>
   success (stagesLog (processVoicePipeline (mk_host hume_ok) wav_file
      (mk_env (Inr (JObj [])) (llama_says (lit ''Hi there!'')))) ! 1) = True \<and>
   snd (processTextWithLLM JUndefined (mk_env (Inr (JObj [])) (llama_says (lit ''Hi there!'')))) =
     Inr (JStr (lit ''Hi there!'')) \<and>
   outcome (processVoicePipeline (mk_host hume_ok) wav_file
      (mk_env (Inr (JObj [])) (llama_says (lit ''Hi there!'')))) =
     Inl (PipelineErr \<lparr> pe_message = lit ''Pipeline validation failed'',
                        pe_stage = response_assembly, pe_details = None \<rparr>) \<and>
   AI_run (mk_env (Inr (JObj [])) (Inl (ErrorInstance (lit ''Llama API error''))))
      (lit ''whisper-large-v3'') (whisper_params [0x52, 0x49, 0x46, 0x46]) = Inr (JObj []) \<and>
   snd (processTextWithLLM JUndefined
          (mk_env (Inr (JObj [])) (Inl (ErrorInstance (lit ''Llama API error''))))) =
     Inl (ErrorInstance (lit ''Llama API error'')) \<and>
   outcome (processVoicePipeline (mk_host hume_ok) wav_file
      (mk_env (Inr (JObj [])) (Inl (ErrorInstance (lit ''Llama API error''))))) =
     Inl (PipelineErr \<lparr> pe_message = lit ''LLM processing failed'',
                        pe_stage = llama, pe_details = Some (lit ''Llama API error'') \<rparr>) \<and>
   AI_run (mk_env (Inr JNull) (llama_says (lit ''Hi there!'')))
      (lit ''whisper-large-v3'') (whisper_params [0x52, 0x49, 0x46, 0x46]) = Inr JNull \<and>
   nullish JNull \<and>
   (\<exists>pe. outcome (processVoicePipeline (mk_host hume_ok) wav_file
             (mk_env (Inr JNull) (llama_says (lit ''Hi there!'')))) = Inl (PipelineErr pe) \<and>
         pe_stage pe = whisper)"
proof -
  have a: "arrayBuffer wav_file = Inr [0x52, 0x49, 0x46, 0x46]"
    by (simp add: wav_file_def)
  have b: "AI_run (mk_env (Inr (JObj [])) l)
      (lit ''whisper-large-v3'') (whisper_params [0x52, 0x49, 0x46, 0x46]) = Inr (JObj [])" for l
    by (simp add: mk_env_def)
  have c: "AI_run (mk_env (Inr JNull) (llama_says (lit ''Hi there!'')))
      (lit ''whisper-large-v3'') (whisper_params [0x52, 0x49, 0x46, 0x46]) = Inr JNull"
    by (simp add: mk_env_def)
  have d: "js_get (JObj []) (lit ''text'') = Inr JUndefined" "blank_text JUndefined"
    "nullish JNull"
    by simp_all
  have l1: "snd (processTextWithLLM JUndefined
                   (mk_env (Inr (JObj [])) (llama_says (lit ''Hi there!'')))) =
              Inr (JStr (lit ''Hi there!''))"
    by (simp add: llama_answered)
  have l2: "snd (processTextWithLLM JUndefined
                   (mk_env (Inr (JObj [])) (Inl (ErrorInstance (lit ''Llama API error''))))) =
              Inl (ErrorInstance (lit ''Llama API error''))"
    by (simp add: processTextWithLLM_def mk_env_def lit_inj Let_def)
  from no_usable_text_not_rejected_by_whisper [OF valid_wav_file a b, where h = "mk_host hume_ok"] d l1
  have r1: "success (stagesLog (processVoicePipeline (mk_host hume_ok) wav_file
      (mk_env (Inr (JObj [])) (llama_says (lit ''Hi there!'')))) ! 1) = True"
    and r2: "outcome (processVoicePipeline (mk_host hume_ok) wav_file
      (mk_env (Inr (JObj [])) (llama_says (lit ''Hi there!'')))) =
     Inl (PipelineErr \<lparr> pe_message = lit ''Pipeline validation failed'',
                        pe_stage = response_assembly, pe_details = None \<rparr>)"
    by blast+
  from no_usable_text_not_rejected_by_whisper [OF valid_wav_file a b, where h = "mk_host hume_ok"] d l2
  have r3: "outcome (processVoicePipeline (mk_host hume_ok) wav_file
      (mk_env (Inr (JObj [])) (Inl (ErrorInstance (lit ''Llama API error''))))) =
     Inl (PipelineErr \<lparr> pe_message = lit ''LLM processing failed'',
                        pe_stage = llama, pe_details = Some (lit ''Llama API error'') \<rparr>)"
    by fastforce
  from no_usable_text_not_rejected_by_whisper [OF valid_wav_file a c, of "mk_host hume_ok"] d
  have r4: "\<exists>pe. outcome (processVoicePipeline (mk_host hume_ok) wav_file
             (mk_env (Inr JNull) (llama_says (lit ''Hi there!'')))) = Inl (PipelineErr pe) \<and>
         pe_stage pe = whisper"
    by simp
  from valid_wav_file a b c d l1 l2 r1 r2 r3 r4 show ?thesis
    by simp
qed

text \<open>
  C3, as the code has it. In a run in which validation and the transcription stage
  succeeded and the response-generation stage returned a response: when the transcript is
  blank, or the transcript is a string and the generated response is blank, the output
  check fails the run before any hume call: the \<open>PipelineError\<close> is tagged
  \<open>response-assembly\<close>, its message is \<open>Pipeline validation failed\<close>, and one failed entry
  with duration 0 is appended to the three successful ones.
\<close>

theorem blank_output_fails_before_synthesis:
  assumes "valid (validateAudioFile f)"
    and "transcribeAudio f e = (cs2, Inr t)"
    and "processTextWithLLM t e = (cs3, Inr l)"
    and "blank_text t \<or> (is_text t \<and> blank_text l)"
  shows "outcome (processVoicePipeline h f e) =
           Inl (PipelineErr \<lparr> pe_message = lit ''Pipeline validation failed'',
                              pe_stage = response_assembly, pe_details = None \<rparr>) \<and>
         map success (stagesLog (processVoicePipeline h f e)) = [True, True, True, False] \<and>
         last (stagesLog (processVoicePipeline h f e)) =
           \<lparr> stage = response_assembly, success = False, durationMs = 0,
             sr_error = Some (lit ''Invalid pipeline output'') \<rparr> \<and>
         \<not> (\<exists>c \<in> set (calls (processVoicePipeline h f e)). is_hume_call c)"
proof -
  from assms(4) have "validatePipelineStages t l = Inr False"
    by (auto intro: blank_transcript_fails_check blank_response_fails_check)
  note run = pvp_check_failed [OF assms(1-3) this, of h]
  from no_hume_call_before_synthesis [OF assms(2,3)] run
  show ?thesis
    by (simp add: new_PipelineError_def stage_ok_def stage_failed_def)
qed

text \<open>
  C3 as stated fails on the message: the code's message is \<open>Pipeline validation failed\<close>,
  not \<open>output validation failed\<close>.
\<close>

theorem blank_output_fails_before_synthesis_counterexample:
  "outcome (processVoicePipeline (mk_host hume_ok) wav_file
      (mk_env (whisper_says []) (llama_says (lit ''Hi there!'')))) =
     Inl (PipelineErr \<lparr> pe_message = lit ''Pipeline validation failed'',
                        pe_stage = response_assembly, pe_details = None \<rparr>) \<and>
   lit ''Pipeline validation failed'' \<noteq> lit ''output validation failed''"
  by (simp add: scenario_D new_PipelineError_def lit_inj)

theorem blank_output_fails_before_synthesis_witness:
  "valid (validateAudioFile wav_file) \<and>
   transcribeAudio wav_file (mk_env (whisper_says (lit ''hello world'')) (llama_says (lit ''  ''))) =
     ([AI_run_call (lit ''whisper-large-v3'') (whisper_params [0x52, 0x49, 0x46, 0x46])],
      Inr (JStr (lit ''hello world''))) \<and>
   processTextWithLLM (JStr (lit ''hello world''))
       (mk_env (whisper_says (lit ''hello world'')) (llama_says (lit ''  ''))) =
     ([AI_run_call (lit ''llama-3.3-70b'') (llama_params (JStr (lit ''hello world'')))],
      Inr (JStr (lit ''  ''))) \<and>
   is_text (JStr (lit ''hello world'')) \<and> blank_text (JStr (lit ''  '')) \<and>
   map success (stagesLog (processVoicePipeline (mk_host hume_ok) wav_file
      (mk_env (whisper_says (lit ''hello world'')) (llama_says (lit ''  ''))))) =
     [True, True, True, False] \<and>
   \<not> (\<exists>c \<in> set (calls (processVoicePipeline (mk_host hume_ok) wav_file
      (mk_env (whisper_says (lit ''hello world'')) (llama_says (lit ''  ''))))). is_hume_call c)"
proof -
  have b: "blank_text (JStr (lit ''  ''))"
    by (simp add: trim_def lit_def u16_def is_ws_def)
  then have "blank_text (JStr (lit ''hello world'')) \<or>
             (is_text (JStr (lit ''hello world'')) \<and> blank_text (JStr (lit ''  '')))"
    by simp
  from blank_output_fails_before_synthesis
         [OF valid_wav_file wav_transcribed llama_answered this, of "mk_host hume_ok"]
       valid_wav_file wav_transcribed llama_answered b
  show ?thesis by simp
qed




section \<open>Properties of the error reporter\<close>




end
